theory Spec2Isabelle
  imports Complex_Main "HOL-Library.AList"
begin

unbundle bit_operations_syntax

section \<open>Numbers and strings of the source\<close>

text \<open>
  The source is TypeScript. Its \<^verbatim>\<open>number\<close>s are modelled as \<^typ>\<open>int\<close>: every amount, fee,
  timestamp, index and height the ledger computes is an integer, and integer arithmetic on
  doubles is exact below \<open>2^53\<close>; what the theorems say of amounts is said of integer
  amounts. Loop counters over arrays, the ledger's own difficulty (which starts at 1 and
  is only ever incremented or set to \<open>max 1 (d - 1)\<close>) and the retarget interval (a number of
  blocks) are \<^typ>\<open>nat\<close>.
  A string is the list of its UTF-8 bytes, which is what \<^verbatim>\<open>TextEncoder\<close> hands to the digest.

  A thrown exception is a value: an operation that can throw returns an \<open>outcome\<close>.
\<close>

datatype error = MiningTimeout | ArgumentError | TypeError | RangeError

datatype 'a outcome = Returned 'a | Threw error

text \<open>Template literals print an integer in decimal (\<^verbatim>\<open>`${i}`\<close>), and so does \<^verbatim>\<open>JSON.stringify\<close>.\<close>

definition digit_char :: "int \<Rightarrow> char" where
  "digit_char d = ''0123456789'' ! nat d"

function digits :: "int \<Rightarrow> string" where
  "digits i = (if i < 10 then [digit_char i] else digits (i div 10) @ [digit_char (i mod 10)])"
  by pat_completeness auto
termination
  by (relation "measure nat") auto

declare digits.simps [simp del]

definition show_int :: "int \<Rightarrow> string" where
  "show_int i = (if i < 0 then CHR ''-'' # digits (- i) else digits i)"

section \<open>The digest: SHA-256\<close>

text \<open>
  \<^verbatim>\<open>sha256(data)\<close> of the source encodes the string, asks the platform for the SHA-256
  digest (\<^verbatim>\<open>crypto.subtle.digest\<close>) and prints the 32 bytes as 64 lower-case hexadecimal
  digits. The digest is the function of FIPS 180-4, written out here on 32-bit words held
  in \<^typ>\<open>int\<close> with the wrap-around \<open>mod 2^32\<close> explicit, so that a hash of a concrete string
  can be computed inside the logic. A rotation to the right by \<open>n\<close> moves the low \<open>n\<close> bits of
  the word to its top.
\<close>

type_synonym w32 = int

definition add32 :: "w32 \<Rightarrow> w32 \<Rightarrow> w32" where
  "add32 x y = (x + y) mod 4294967296"

definition rotr :: "nat \<Rightarrow> w32 \<Rightarrow> w32" where
  "rotr n x = drop_bit n x + push_bit (32 - n) (take_bit n x)"

definition Ch :: "w32 \<Rightarrow> w32 \<Rightarrow> w32 \<Rightarrow> w32" where
  "Ch x y z = (x AND y) XOR ((4294967295 - x) AND z)"

definition Maj :: "w32 \<Rightarrow> w32 \<Rightarrow> w32 \<Rightarrow> w32" where
  "Maj x y z = (x AND y) XOR (x AND z) XOR (y AND z)"

definition bsig0 :: "w32 \<Rightarrow> w32" where
  "bsig0 x = rotr 2 x XOR rotr 13 x XOR rotr 22 x"

definition bsig1 :: "w32 \<Rightarrow> w32" where
  "bsig1 x = rotr 6 x XOR rotr 11 x XOR rotr 25 x"

definition ssig0 :: "w32 \<Rightarrow> w32" where
  "ssig0 x = rotr 7 x XOR rotr 18 x XOR drop_bit 3 x"

definition ssig1 :: "w32 \<Rightarrow> w32" where
  "ssig1 x = rotr 17 x XOR rotr 19 x XOR drop_bit 10 x"

text \<open>The round constants and the initial hash value, in decimal.\<close>

definition round_constants :: "w32 list" where
  "round_constants =
    [1116352408, 1899447441, 3049323471, 3921009573, 961987163, 1508970993, 2453635748,
     2870763221, 3624381080, 310598401, 607225278, 1426881987, 1925078388, 2162078206,
     2614888103, 3248222580, 3835390401, 4022224774, 264347078, 604807628, 770255983,
     1249150122, 1555081692, 1996064986, 2554220882, 2821834349, 2952996808, 3210313671,
     3336571891, 3584528711, 113926993, 338241895, 666307205, 773529912, 1294757372,
     1396182291, 1695183700, 1986661051, 2177026350, 2456956037, 2730485921, 2820302411,
     3259730800, 3345764771, 3516065817, 3600352804, 4094571909, 275423344, 430227734,
     506948616, 659060556, 883997877, 958139571, 1322822218, 1537002063, 1747873779,
     1955562222, 2024104815, 2227730452, 2361852424, 2428436474, 2756734187, 3204031479,
     3329325298]"

definition initial_hash :: "w32 list" where
  "initial_hash =
    [1779033703, 3144134277, 1013904242, 2773480762, 1359893119, 2600822924, 528734635,
     1541459225]"

fun round_fin :: "w32 list \<Rightarrow> w32 \<Rightarrow> w32 \<Rightarrow> w32 list" where
  "round_fin [a, b, c, d, e, f, g, h] t1 t2 = [add32 t1 t2, a, b, c, add32 d t1, e, f, g]"
| "round_fin st t1 t2 = st"

fun round_step :: "w32 list \<Rightarrow> w32 \<Rightarrow> w32 \<Rightarrow> w32 list" where
  "round_step [a, b, c, d, e, f, g, h] k w =
     round_fin [a, b, c, d, e, f, g, h]
       ((h + bsig1 e + Ch e f g + k + w) mod 4294967296)
       (add32 (bsig0 a) (Maj a b c))"
| "round_step st k w = st"

text \<open>
  The 64 rounds, one per round constant. \<open>ws\<close> is the window of the sixteen most recent
  words of the message schedule, oldest first: the round uses its head and the window
  moves on by the next schedule word.
\<close>

fun rounds :: "w32 list \<Rightarrow> w32 list \<Rightarrow> w32 list \<Rightarrow> w32 list" where
  "rounds [] ws st = st"
| "rounds (k # ks) ws st =
     rounds ks
       (tl ws @ [(ssig1 (ws ! 14) + ws ! 9 + ssig0 (ws ! 1) + ws ! 0) mod 4294967296])
       (round_step st k (ws ! 0))"

definition compress :: "w32 list \<Rightarrow> w32 list \<Rightarrow> w32 list" where
  "compress st blk = map2 add32 st (rounds round_constants blk st)"

fun be_words :: "int list \<Rightarrow> w32 list" where
  "be_words (a # b # c # d # bs) = (((a * 256 + b) * 256 + c) * 256 + d) # be_words bs"
| "be_words _ = []"

definition be_bytes8 :: "int \<Rightarrow> int list" where
  "be_bytes8 n = map (\<lambda>i. (n div 256 ^ i) mod 256) [7, 6, 5, 4, 3, 2, 1, 0]"

fun zeros :: "nat \<Rightarrow> int list" where
  "zeros n = (if n = 0 then [] else 0 # zeros (n - 1))"

declare zeros.simps [simp del]

definition pad :: "int list \<Rightarrow> int list" where
  "pad bs = bs @ [128] @ zeros ((119 - length bs mod 64) mod 64) @ be_bytes8 (8 * int (length bs))"

function blocks :: "w32 list \<Rightarrow> w32 list list" where
  "blocks ws = (if length ws < 16 then [] else take 16 ws # blocks (drop 16 ws))"
  by pat_completeness auto
termination
  by (relation "measure length") auto

declare blocks.simps [simp del]

definition hex_digit :: "int \<Rightarrow> char" where
  "hex_digit n = ''0123456789abcdef'' ! nat (n mod 16)"

definition hex32 :: "w32 \<Rightarrow> string" where
  "hex32 w = map (\<lambda>i. hex_digit (w div 16 ^ i)) [7, 6, 5, 4, 3, 2, 1, 0]"

definition sha256 :: "string \<Rightarrow> string" where
  "sha256 s =
     concat (map hex32 (foldl compress initial_hash (blocks (be_words (pad (map of_char s))))))"

section \<open>Cryptographic utilities\<close>

definition generatePublicKey :: "string \<Rightarrow> string" where
  "generatePublicKey privateKey = ''04'' @ take 62 (sha256 (''public_'' @ privateKey))"

definition generateAddress :: "string \<Rightarrow> string" where
  "generateAddress publicKey = take 40 (sha256 (sha256 publicKey))"

definition signMessage :: "string \<Rightarrow> string \<Rightarrow> string" where
  "signMessage message privateKey = sha256 (sha256 message @ ''_'' @ privateKey)"

definition getPrivateKeyFromPublic :: "string \<Rightarrow> string" where
  "getPrivateKeyFromPublic publicKey = sha256 (''reverse_'' @ publicKey)"

definition verifySignature :: "string \<Rightarrow> string \<Rightarrow> string \<Rightarrow> bool" where
  "verifySignature message signature publicKey =
     (signature = sha256 (sha256 message @ ''_'' @ getPrivateKeyFromPublic publicKey))"

text \<open>
  \<^verbatim>\<open>calculateMerkleRoot\<close>: the \<^verbatim>\<open>for\<close> loop that builds \<^verbatim>\<open>newLevel\<close> takes the hashes two
  at a time, and pairs a last odd one with itself.
\<close>

fun newLevel :: "string list \<Rightarrow> string list" where
  "newLevel [] = []"
| "newLevel [left] = [sha256 (left @ left)]"
| "newLevel (left # right # hashes) = sha256 (left @ right) # newLevel hashes"

lemma length_newLevel: "length (newLevel hashes) = (length hashes + 1) div 2"
  by (induction hashes rule: newLevel.induct) simp_all

function calculateMerkleRoot :: "string list \<Rightarrow> string" where
  "calculateMerkleRoot hashes =
     (if length hashes = 0 then sha256 ''''
      else if length hashes = 1 then hd hashes
      else calculateMerkleRoot (newLevel hashes))"
  by pat_completeness auto
termination
proof (relation "measure length")
  fix hashes :: "string list"
  assume "length hashes \<noteq> 0" and "length hashes \<noteq> 1"
  then have "(length hashes + 1) div 2 < length hashes"
    by arith
  then show "(newLevel hashes, hashes) \<in> measure length"
    by (simp add: length_newLevel)
qed simp

declare calculateMerkleRoot.simps [simp del]

text \<open>
  \<^verbatim>\<open>'0'.repeat(difficulty)\<close> throws a RangeError when the count is negative and when the
  string would be longer than the engine allows; \<open>maxLength\<close> is the engine's greatest string
  length (it differs between engines, so it is an argument). Otherwise the result is
  \<^verbatim>\<open>hash.startsWith\<close> of that many zeros.
\<close>

definition isValidProofOfWork :: "int \<Rightarrow> string \<Rightarrow> int \<Rightarrow> bool outcome" where
  "isValidProofOfWork maxLength hash difficulty =
     (if difficulty < 0 \<or> maxLength < difficulty then Threw RangeError
      else Returned (take (nat difficulty) hash = replicate (nat difficulty) (CHR ''0'')))"

section \<open>JSON text\<close>

text \<open>
  \<^verbatim>\<open>JSON.stringify\<close>, for the two object shapes the source serialises. A string is quoted
  and escaped as ECMAScript's \<^verbatim>\<open>QuoteJSONString\<close> does; an integer (below \<open>10^21\<close> in
  magnitude) is printed in decimal; the members appear in the order of the object literal.
\<close>

definition json_escape :: "char \<Rightarrow> string" where
  "json_escape c =
     (if c = CHR 0x22 then [CHR 0x5C, CHR 0x22]
      else if c = CHR 0x5C then [CHR 0x5C, CHR 0x5C]
      else if (of_char c :: int) \<ge> 32 then [c]
      else if c = CHR 0x08 then [CHR 0x5C, CHR ''b'']
      else if c = CHR 0x09 then [CHR 0x5C, CHR ''t'']
      else if c = CHR 0x0A then [CHR 0x5C, CHR ''n'']
      else if c = CHR 0x0C then [CHR 0x5C, CHR ''f'']
      else if c = CHR 0x0D then [CHR 0x5C, CHR ''r'']
      else [CHR 0x5C, CHR ''u'', CHR ''0'', CHR ''0'', hex_digit (of_char c div 16), hex_digit (of_char c)])"

definition json_string :: "string \<Rightarrow> string" where
  "json_string s = CHR 0x22 # concat (map json_escape s) @ [CHR 0x22]"

definition json_member :: "string \<Rightarrow> string \<Rightarrow> string" where
  "json_member name val = json_string name @ '':'' @ val"

fun json_join :: "string list \<Rightarrow> string" where
  "json_join [] = []"
| "json_join [x] = x"
| "json_join (x # y # xs) = x @ '','' @ json_join (y # xs)"

definition json_object :: "string list \<Rightarrow> string" where
  "json_object members = ''{'' @ json_join members @ ''}''"

definition json_array :: "string list \<Rightarrow> string" where
  "json_array elements = ''['' @ json_join elements @ '']''"

section \<open>Transactions\<close>

record TransactionInput =
  previousTxHash :: string
  outputIndex :: int
  signature :: string
  publicKey :: string

record TransactionOutput =
  amount :: int
  recipientAddress :: string

record UTXO =
  txHash :: string
  outputIndex :: int
  "output" :: TransactionOutput
  blockHeight :: int

record Transaction =
  hash :: string
  timestamp :: int
  inputs :: "TransactionInput list"
  outputs :: "TransactionOutput list"
  fee :: int

text \<open>
  The UTXO set is a JavaScript \<^verbatim>\<open>Map\<close> from strings to UTXOs. It is modelled as the list of
  its entries in insertion order: \<^verbatim>\<open>set\<close> is \<^const>\<open>AList.update\<close> (an existing key keeps its
  place), \<^verbatim>\<open>delete\<close> is \<^const>\<open>AList.delete\<close>, \<^verbatim>\<open>get\<close> and \<^verbatim>\<open>has\<close> are \<^const>\<open>map_of\<close>,
  and \<^verbatim>\<open>values()\<close> is the list of second components. The keys of a \<^verbatim>\<open>Map\<close> are distinct.
\<close>

type_synonym utxo_map = "(string \<times> UTXO) list"

text \<open>The key \<^verbatim>\<open>`${txHash}:${outputIndex}`\<close>.\<close>

definition utxoKey :: "string \<Rightarrow> int \<Rightarrow> string" where
  "utxoKey h i = h @ '':'' @ show_int i"

definition inputKey :: "TransactionInput \<Rightarrow> string" where
  "inputKey inp = utxoKey (previousTxHash inp) (TransactionInput.outputIndex inp)"

text \<open>The constructor reads the clock for the timestamp; the reading is the argument \<open>now\<close>.\<close>

definition Transaction_new ::
  "TransactionInput list \<Rightarrow> TransactionOutput list \<Rightarrow> int \<Rightarrow> int \<Rightarrow> Transaction" where
  "Transaction_new ins outs f now =
     \<lparr>Transaction.hash = [], Transaction.timestamp = now, inputs = ins, outputs = outs, fee = f\<rparr>"

definition input_json :: "TransactionInput \<Rightarrow> string" where
  "input_json inp =
     json_object
      [json_member ''previousTxHash'' (json_string (previousTxHash inp)),
       json_member ''outputIndex'' (show_int (TransactionInput.outputIndex inp)),
       json_member ''publicKey'' (json_string (TransactionInput.publicKey inp))]"

definition output_json :: "TransactionOutput \<Rightarrow> string" where
  "output_json out =
     json_object
      [json_member ''amount'' (show_int (amount out)),
       json_member ''recipientAddress'' (json_string (recipientAddress out))]"

text \<open>
  \<^verbatim>\<open>getDataForSigning\<close>: the transaction without its signatures and its hash.
  \<^verbatim>\<open>calculateHash\<close> builds the same text again and stores its digest.
\<close>

definition getDataForSigning :: "Transaction \<Rightarrow> string" where
  "getDataForSigning tx =
     json_object
      [json_member ''inputs'' (json_array (map input_json (inputs tx))),
       json_member ''outputs'' (json_array (map output_json (outputs tx))),
       json_member ''timestamp'' (show_int (Transaction.timestamp tx)),
       json_member ''fee'' (show_int (fee tx))]"

definition Transaction_calculateHash :: "Transaction \<Rightarrow> Transaction" where
  "Transaction_calculateHash tx = tx\<lparr>Transaction.hash := sha256 (getDataForSigning tx)\<rparr>"

text \<open>
  \<^verbatim>\<open>signInputs\<close>: the loop that signs input \<open>i\<close> with key \<open>i\<close>, after the check that there are
  as many keys as inputs.
\<close>

fun signEach :: "string \<Rightarrow> TransactionInput list \<Rightarrow> string list \<Rightarrow> TransactionInput list" where
  "signEach dataToSign (inp # ins) (key # keys) =
     inp\<lparr>signature := signMessage dataToSign key\<rparr> # signEach dataToSign ins keys"
| "signEach dataToSign ins keys = []"

definition signInputs :: "Transaction \<Rightarrow> string list \<Rightarrow> Transaction outcome" where
  "signInputs tx privateKeys =
     (if length privateKeys \<noteq> length (inputs tx) then Threw ArgumentError
      else
        let dataToSign = getDataForSigning tx
        in Returned (Transaction_calculateHash
             (tx\<lparr>inputs := signEach dataToSign (inputs tx) privateKeys\<rparr>)))"

text \<open>\<^verbatim>\<open>verifySignatures\<close>: the loop over the inputs returns false at the first mismatch.\<close>

fun verifyEach :: "string \<Rightarrow> TransactionInput list \<Rightarrow> bool" where
  "verifyEach dataToSign [] = True"
| "verifyEach dataToSign (inp # ins) =
     (if \<not> verifySignature dataToSign (signature inp) (TransactionInput.publicKey inp) then False
      else verifyEach dataToSign ins)"

definition verifySignatures :: "Transaction \<Rightarrow> bool" where
  "verifySignatures tx = verifyEach (getDataForSigning tx) (inputs tx)"

definition hasUtxo :: "utxo_map \<Rightarrow> TransactionInput \<Rightarrow> bool" where
  "hasUtxo utxos inp = (map_of utxos (inputKey inp) \<noteq> None)"

definition inputAmount :: "utxo_map \<Rightarrow> TransactionInput \<Rightarrow> int" where
  "inputAmount utxos inp =
     (case map_of utxos (inputKey inp) of Some utxo \<Rightarrow> amount (output utxo) | None \<Rightarrow> 0)"

definition getTotalInputAmount :: "Transaction \<Rightarrow> utxo_map \<Rightarrow> int" where
  "getTotalInputAmount tx utxos = sum_list (map (inputAmount utxos) (inputs tx))"

definition getTotalOutputAmount :: "Transaction \<Rightarrow> int" where
  "getTotalOutputAmount tx = sum_list (map amount (outputs tx))"

definition Transaction_isValid :: "Transaction \<Rightarrow> utxo_map \<Rightarrow> bool" where
  "Transaction_isValid tx utxos =
     (if length (inputs tx) = 0 \<or> length (outputs tx) = 0 then False
      else if \<not> verifySignatures tx then False
      else if \<not> list_all (hasUtxo utxos) (inputs tx) then False
      else if getTotalInputAmount tx utxos < getTotalOutputAmount tx + fee tx then False
      else if list_ex (\<lambda>out. amount out \<le> 0) (outputs tx) then False
      else True)"

definition zero_hash :: string where
  "zero_hash = ''0000000000000000000000000000000000000000000000000000000000000000''"

definition isCoinbase :: "Transaction \<Rightarrow> bool" where
  "isCoinbase tx =
     (case inputs tx of
        [inp] \<Rightarrow> previousTxHash inp = zero_hash \<and> TransactionInput.outputIndex inp = 4294967295
      | _ \<Rightarrow> False)"

text \<open>
  \<^verbatim>\<open>createCoinbase\<close> starts \<^verbatim>\<open>calculateHash\<close> without awaiting it, so the transaction it
  returns still has the empty hash; \<^verbatim>\<open>Block.calculateMerkleRoot\<close> computes the hash of a
  transaction that has none.
\<close>

definition createCoinbase :: "string \<Rightarrow> int \<Rightarrow> int \<Rightarrow> int \<Rightarrow> Transaction" where
  "createCoinbase minerAddress atHeight reward now =
     Transaction_new
       [\<lparr>previousTxHash = zero_hash, outputIndex = 4294967295,
         signature = ''coinbase_'' @ show_int atHeight,
         publicKey = ''coinbase_'' @ show_int atHeight\<rparr>]
       [\<lparr>amount = reward, recipientAddress = minerAddress\<rparr>]
       0 now"

section \<open>Transaction objects\<close>

text \<open>
  A transaction is an object. The transaction list of a block and the mempool hold
  references to transaction objects, the same object can be in both, and mining and
  validation write the hash of a transaction that has none into the object itself. So the
  objects live in a heap: the list of the transaction objects made so far. A reference is
  an index into it, and \<^verbatim>\<open>new Transaction\<close> appends. The functions above this point read
  one transaction and are functions of its value; the functions below take the heap and
  return it.
\<close>

type_synonym txref = nat

type_synonym txheap = "Transaction list"

text \<open>\<^verbatim>\<open>if (!tx.hash) await tx.calculateHash()\<close>\<close>

definition ensureHash :: "txref \<Rightarrow> txheap \<Rightarrow> txheap" where
  "ensureHash r h =
     (if Transaction.hash (h ! r) = [] then h[r := Transaction_calculateHash (h ! r)] else h)"

section \<open>Blocks\<close>

record BlockHeader =
  version :: int
  previousBlockHash :: string
  merkleRoot :: string
  timestamp :: int
  difficulty :: int
  nonce :: int

record Block =
  hash :: string
  header :: BlockHeader
  transactions :: "txref list"
  height :: int

definition Block_new :: "string \<Rightarrow> txref list \<Rightarrow> int \<Rightarrow> int \<Rightarrow> int \<Rightarrow> Block" where
  "Block_new prevHash txs d h now =
     \<lparr>Block.hash = [],
      header = \<lparr>version = 1, previousBlockHash = prevHash, merkleRoot = [],
                BlockHeader.timestamp = now, BlockHeader.difficulty = d, nonce = 0\<rparr>,
      transactions = txs, height = h\<rparr>"

text \<open>
  The loop of \<^verbatim>\<open>Block.calculateMerkleRoot\<close>: each transaction gets its hash if it has none,
  and its hash is collected.
\<close>

fun hashTransactions :: "txref list \<Rightarrow> txheap \<Rightarrow> string list \<times> txheap" where
  "hashTransactions [] h = ([], h)"
| "hashTransactions (r # rs) h =
     (let h1 = ensureHash r h;
          (txHashes, h2) = hashTransactions rs h1
      in (Transaction.hash (h1 ! r) # txHashes, h2))"

definition Block_calculateMerkleRoot :: "Block \<Rightarrow> txheap \<Rightarrow> Block \<times> txheap" where
  "Block_calculateMerkleRoot b h =
     (if length (transactions b) = 0
      then (b\<lparr>header := (header b)\<lparr>merkleRoot := sha256 []\<rparr>\<rparr>, h)
      else
        let (txHashes, h1) = hashTransactions (transactions b) h
        in (b\<lparr>header := (header b)\<lparr>merkleRoot := calculateMerkleRoot txHashes\<rparr>\<rparr>, h1))"

definition headerData :: "BlockHeader \<Rightarrow> string" where
  "headerData hdr =
     json_object
      [json_member ''version'' (show_int (version hdr)),
       json_member ''previousBlockHash'' (json_string (previousBlockHash hdr)),
       json_member ''merkleRoot'' (json_string (merkleRoot hdr)),
       json_member ''timestamp'' (show_int (BlockHeader.timestamp hdr)),
       json_member ''difficulty'' (show_int (BlockHeader.difficulty hdr)),
       json_member ''nonce'' (show_int (nonce hdr))]"

definition Block_calculateHash :: "Block \<Rightarrow> txheap \<Rightarrow> Block \<times> txheap" where
  "Block_calculateHash b h =
     (let (b1, h1) = Block_calculateMerkleRoot b h
      in (b1\<lparr>Block.hash := sha256 (headerData (header b1))\<rparr>, h1))"

text \<open>
  \<^verbatim>\<open>mine\<close>: the \<^verbatim>\<open>while (true)\<close> loop, with the number of attempts made so far. The clock
  is read when the attempts reach a multiple of 10000; \<open>clock n\<close> is the reading at attempt
  \<open>n\<close>. The loop is left by \<^verbatim>\<open>break\<close>, by \<^verbatim>\<open>throw new Error('Mining timeout ...')\<close>, or by
  the RangeError of \<^verbatim>\<open>isValidProofOfWork\<close>.
\<close>

function mineLoop ::
  "int \<Rightarrow> (int \<Rightarrow> int) \<Rightarrow> Block \<Rightarrow> int \<Rightarrow> txheap \<Rightarrow> Block outcome \<times> txheap" where
  "mineLoop maxLength clock b attempts h =
     (let (b1, h1) = Block_calculateHash b h
      in case isValidProofOfWork maxLength (Block.hash b1) (BlockHeader.difficulty (header b1)) of
           Threw e \<Rightarrow> (Threw e, h1)
         | Returned found \<Rightarrow>
             if found then (Returned b1, h1)
             else
               let b2 = b1\<lparr>header := (header b1)\<lparr>nonce := nonce (header b1) + 1\<rparr>\<rparr>;
                   attempts' = attempts + 1;
                   b3 = (if attempts' mod 10000 = 0 \<and> attempts' > 0
                         then b2\<lparr>header := (header b2)\<lparr>BlockHeader.timestamp := clock attempts'\<rparr>\<rparr>
                         else b2)
               in if attempts' > 1000000 then (Threw MiningTimeout, h1)
                  else mineLoop maxLength clock b3 attempts' h1)"
  by pat_completeness auto
termination
  by (relation "measure (\<lambda>(maxLength, clock, b, attempts, h). nat (1000001 - attempts))") auto

declare mineLoop.simps [simp del]

definition Block_mine ::
  "int \<Rightarrow> (int \<Rightarrow> int) \<Rightarrow> Block \<Rightarrow> txheap \<Rightarrow> Block outcome \<times> txheap" where
  "Block_mine maxLength clock b h =
     (let (b0, h0) = Block_calculateMerkleRoot b h
      in mineLoop maxLength clock b0 0 h0)"

text \<open>
  \<^verbatim>\<open>isValid\<close> recomputes the hash and the merkle root in place before it compares them, so
  it also returns the block and the heap as it leaves them. \<open>now\<close> is the clock reading of
  the timestamp check.
\<close>

definition Block_isValid ::
  "int \<Rightarrow> Block \<Rightarrow> Block option \<Rightarrow> int \<Rightarrow> txheap \<Rightarrow> bool outcome \<times> Block \<times> txheap" where
  "Block_isValid maxLength b previousBlock now h =
     (let (b1, h1) = Block_calculateHash b h;
          calculatedHash = Block.hash b1
      in if calculatedHash \<noteq> Block.hash b1 then (Returned False, b1, h1)
         else
           case isValidProofOfWork maxLength (Block.hash b1) (BlockHeader.difficulty (header b1)) of
             Threw e \<Rightarrow> (Threw e, b1, h1)
           | Returned meets \<Rightarrow>
               if \<not> meets then (Returned False, b1, h1)
               else
                 let (b2, h2) = Block_calculateMerkleRoot b1 h1;
                     calculatedMerkleRoot = merkleRoot (header b2)
                 in if calculatedMerkleRoot \<noteq> merkleRoot (header b2) then (Returned False, b2, h2)
                    else if (case previousBlock of
                               Some p \<Rightarrow> previousBlockHash (header b2) \<noteq> Block.hash p
                             | None \<Rightarrow> False)
                    then (Returned False, b2, h2)
                    else if BlockHeader.timestamp (header b2) > now + 2 * 60 * 60 * 1000
                    then (Returned False, b2, h2)
                    else
                      let h3 = fold ensureHash (transactions b2) h2
                      in if length (transactions b2) = 0 then (Returned False, b2, h3)
                         else if \<not> isCoinbase (h3 ! hd (transactions b2))
                         then (Returned False, b2, h3)
                         else if list_ex isCoinbase (map (nth h3) (tl (transactions b2)))
                         then (Returned False, b2, h3)
                         else (Returned True, b2, h3))"

section \<open>The ledger\<close>

record Blockchain =
  chain :: "Block list"
  difficulty :: nat
  miningReward :: int
  maxSupply :: int
  creatorAddress :: string
  creatorAllocation :: int
  utxoSet :: utxo_map
  mempool :: "txref list"
  targetBlockTime :: int
  difficultyAdjustmentInterval :: nat

text \<open>The field initialisers of the class: the ledger before its genesis block is made.\<close>

definition Blockchain_new :: Blockchain where
  "Blockchain_new =
     \<lparr>chain = [], Blockchain.difficulty = 1, miningReward = 50, maxSupply = 21000000,
      creatorAddress = ''1a964aaf3bc24324b1b9be5a2b115f2108ea309e'', creatorAllocation = 1000000,
      utxoSet = [], mempool = [], targetBlockTime = 5000, difficultyAdjustmentInterval = 10\<rparr>"

text \<open>\<^verbatim>\<open>this.chain[this.chain.length - 1]\<close> is \<^verbatim>\<open>undefined\<close> on the empty chain.\<close>

definition getLatestBlock :: "Blockchain \<Rightarrow> Block option" where
  "getLatestBlock s = (if chain s = [] then None else Some (last (chain s)))"

definition getHeight :: "Blockchain \<Rightarrow> int" where
  "getHeight s = int (length (chain s)) - 1"

text \<open>The loop over \<^verbatim>\<open>tx.outputs\<close> that stores output \<open>i\<close> under the key of \<open>(tx.hash, i)\<close>.\<close>

fun addOutputs :: "string \<Rightarrow> int \<Rightarrow> int \<Rightarrow> TransactionOutput list \<Rightarrow> utxo_map \<Rightarrow> utxo_map" where
  "addOutputs h bh i [] utxos = utxos"
| "addOutputs h bh i (out # outs) utxos =
     addOutputs h bh (i + 1) outs
       (AList.update (utxoKey h i)
          \<lparr>txHash = h, outputIndex = i, output = out, blockHeight = bh\<rparr> utxos)"

fun spendInputs :: "TransactionInput list \<Rightarrow> utxo_map \<Rightarrow> utxo_map" where
  "spendInputs [] utxos = utxos"
| "spendInputs (inp # ins) utxos = spendInputs ins (AList.delete (inputKey inp) utxos)"

definition applyTransaction :: "int \<Rightarrow> Transaction \<Rightarrow> utxo_map \<Rightarrow> utxo_map" where
  "applyTransaction bh tx utxos =
     addOutputs (Transaction.hash tx) bh 0 (outputs tx)
       (if \<not> isCoinbase tx then spendInputs (inputs tx) utxos else utxos)"

definition updateUtxoSet :: "Block \<Rightarrow> txheap \<Rightarrow> Blockchain \<Rightarrow> Blockchain" where
  "updateUtxoSet block h s =
     s\<lparr>utxoSet := fold (applyTransaction (height block)) (map (nth h) (transactions block))
                    (utxoSet s)\<rparr>"

definition removeMinedTransactions :: "Block \<Rightarrow> txheap \<Rightarrow> Blockchain \<Rightarrow> Blockchain" where
  "removeMinedTransactions block h s =
     (let minedTxHashes = set (map Transaction.hash (map (nth h) (transactions block)))
      in s\<lparr>mempool := filter (\<lambda>r. Transaction.hash (h ! r) \<notin> minedTxHashes) (mempool s)\<rparr>)"

text \<open>
  The quotient \<^verbatim>\<open>timeActual / timeExpected\<close> of two integers is a rational number, or an
  infinity or NaN when the divisor is zero; a comparison with NaN is false. (The double
  nearest to the quotient compares with 0.25 and with 4 as the quotient does, for operands
  below \<open>2^51\<close>.)
\<close>

datatype jsnum = Finite rat | PosInfinity | NegInfinity | NaN

definition js_div :: "int \<Rightarrow> int \<Rightarrow> jsnum" where
  "js_div a b =
     (if b \<noteq> 0 then Finite (of_int a / of_int b)
      else if a > 0 then PosInfinity
      else if a < 0 then NegInfinity
      else NaN)"

fun js_less :: "jsnum \<Rightarrow> rat \<Rightarrow> bool" where
  "js_less (Finite x) c = (x < c)"
| "js_less NegInfinity c = True"
| "js_less _ c = False"

fun js_greater :: "jsnum \<Rightarrow> rat \<Rightarrow> bool" where
  "js_greater (Finite x) c = (x > c)"
| "js_greater PosInfinity c = True"
| "js_greater _ c = False"

text \<open>
  \<^verbatim>\<open>adjustDifficulty\<close>. \<^verbatim>\<open>length % 0\<close> is NaN, which differs from 0, so a zero interval
  returns at once. On the empty chain both blocks are \<^verbatim>\<open>undefined\<close> and reading
  \<^verbatim>\<open>endBlock.header\<close> throws; on a chain of positive length that the interval divides,
  both indices are in range.
\<close>

definition adjustDifficulty :: "Blockchain \<Rightarrow> Blockchain outcome" where
  "adjustDifficulty s =
     (let n = length (chain s); k = difficultyAdjustmentInterval s
      in if k = 0 \<or> n mod k \<noteq> 0 then Returned s
         else if n = 0 then Threw TypeError
         else
           let startBlock = chain s ! (n - k);
               endBlock = chain s ! (n - 1);
               timeExpected = targetBlockTime s * int k;
               timeActual = BlockHeader.timestamp (header endBlock)
                            - BlockHeader.timestamp (header startBlock);
               ratio = js_div timeActual timeExpected
           in if js_less ratio (1 / 4)
              then Returned (s\<lparr>Blockchain.difficulty := Blockchain.difficulty s + 1\<rparr>)
              else if js_greater ratio 4
              then Returned (s\<lparr>Blockchain.difficulty := max 1 (Blockchain.difficulty s - 1)\<rparr>)
              else Returned s)"

text \<open>
  \<^verbatim>\<open>addBlock\<close> returns its result together with the ledger and the heap it leaves. The
  block pushed on the chain is the argument as \<^verbatim>\<open>isValid\<close> left it. \<open>now\<close> is the clock
  reading of \<^verbatim>\<open>Block.isValid\<close>. The writes \<^verbatim>\<open>isValid\<close> made to transaction objects stay when
  the block is rejected or \<^verbatim>\<open>isValid\<close> throws. Blocks are values here: the argument stands
  for a block object that is not one of the chain's, as the block that \<^verbatim>\<open>mineBlock\<close> makes.
\<close>

definition addBlock ::
  "int \<Rightarrow> Blockchain \<Rightarrow> Block \<Rightarrow> int \<Rightarrow> txheap \<Rightarrow> bool outcome \<times> Blockchain \<times> txheap" where
  "addBlock maxLength s newBlock now h =
     (let previousBlock = getLatestBlock s
      in case Block_isValid maxLength newBlock previousBlock now h of
           (Threw e, b, h1) \<Rightarrow> (Threw e, s, h1)
         | (Returned valid, b, h1) \<Rightarrow>
             if \<not> valid then (Returned False, s, h1)
             else if list_ex (\<lambda>tx. \<not> Transaction_isValid tx (utxoSet s))
                       (map (nth h1) (tl (transactions b)))
             then (Returned False, s, h1)
             else
               let s1 = s\<lparr>chain := chain s @ [b]\<rparr>;
                   s2 = updateUtxoSet b h1 s1;
                   s3 = removeMinedTransactions b h1 s2
               in (case adjustDifficulty s3 of
                     Returned s4 \<Rightarrow> (Returned True, s4, h1)
                   | Threw e \<Rightarrow> (Threw e, s3, h1)))"

definition getBalance :: "Blockchain \<Rightarrow> string \<Rightarrow> int" where
  "getBalance s addr =
     sum_list (map (\<lambda>utxo. amount (output utxo))
       (filter (\<lambda>utxo. recipientAddress (output utxo) = addr) (map snd (utxoSet s))))"

definition getUtxosForAddress :: "Blockchain \<Rightarrow> string \<Rightarrow> UTXO list" where
  "getUtxosForAddress s addr =
     filter (\<lambda>utxo. recipientAddress (output utxo) = addr) (map snd (utxoSet s))"

definition getTotalSupply :: "Blockchain \<Rightarrow> int" where
  "getTotalSupply s = sum_list (map (\<lambda>utxo. amount (output utxo)) (map snd (utxoSet s)))"

text \<open>
  \<^verbatim>\<open>mineBlock\<close>. The reward of the coinbase transaction is computed first; the coinbase
  transaction is a new object. The four clock readings are those of the coinbase
  transaction's constructor, of the block's constructor, of the mining loop and of
  \<^verbatim>\<open>addBlock\<close>. Reading \<^verbatim>\<open>getLatestBlock().hash\<close> on the empty chain throws outside the
  \<^verbatim>\<open>try\<close>; what \<^verbatim>\<open>mine\<close> or \<^verbatim>\<open>addBlock\<close> throw is caught and gives \<^verbatim>\<open>null\<close>. The block
  returned is the one pushed on the chain.
\<close>

definition coinbaseReward :: "Blockchain \<Rightarrow> txheap \<Rightarrow> int" where
  "coinbaseReward s h =
     (let currentSupply = getTotalSupply s;
          totalFees = sum_list (map fee (map (nth h) (mempool s)));
          reward = miningReward s + totalFees
      in if currentSupply + reward > maxSupply s then maxSupply s - currentSupply else reward)"

definition mineBlock ::
  "int \<Rightarrow> Blockchain \<Rightarrow> string \<Rightarrow> int \<Rightarrow> int \<Rightarrow> (int \<Rightarrow> int) \<Rightarrow> int \<Rightarrow> txheap
   \<Rightarrow> Block option outcome \<times> Blockchain \<times> txheap" where
  "mineBlock maxLength s minerAddress txTime blockTime clock addTime h =
     (let currentSupply = getTotalSupply s
      in if currentSupply \<ge> maxSupply s then (Returned None, s, h)
         else
           let coinbaseTx = length h;
               h0 = h @ [createCoinbase minerAddress (getHeight s + 1) (coinbaseReward s h) txTime];
               blockTransactions = coinbaseTx # take 100 (mempool s)
           in case getLatestBlock s of
                None \<Rightarrow> (Threw TypeError, s, h0)
              | Some latest \<Rightarrow>
                  let newBlock = Block_new (Block.hash latest) blockTransactions
                                   (int (Blockchain.difficulty s)) (getHeight s + 1) blockTime
                  in (case Block_mine maxLength clock newBlock h0 of
                        (Threw e, h1) \<Rightarrow> (Returned None, s, h1)
                      | (Returned mined, h1) \<Rightarrow>
                          (case addBlock maxLength s mined addTime h1 of
                             (Returned True, s', h2) \<Rightarrow> (Returned (Some (last (chain s'))), s', h2)
                           | (Returned False, s', h2) \<Rightarrow> (Returned None, s', h2)
                           | (Threw e, s', h2) \<Rightarrow> (Returned None, s', h2))))"

text \<open>\<^verbatim>\<open>addTransaction\<close> writes to no transaction object.\<close>

definition addTransaction :: "Blockchain \<Rightarrow> txref \<Rightarrow> txheap \<Rightarrow> bool \<times> Blockchain" where
  "addTransaction s tx h =
     (if \<not> Transaction_isValid (h ! tx) (utxoSet s) then (False, s)
      else if list_ex (\<lambda>t. Transaction.hash (h ! t) = Transaction.hash (h ! tx)) (mempool s)
      then (False, s)
      else (True, s\<lparr>mempool := mempool s @ [tx]\<rparr>))"

text \<open>
  The genesis block: the base coinbase transaction and, when a creator address and a
  non-zero allocation are given, the creator's, both new objects; mined like any block.
  \<^verbatim>\<open>initializeGenesis\<close> pushes it and stores the outputs of its transactions at block
  height 0.
\<close>

definition createGenesisBlock ::
  "int \<Rightarrow> int \<Rightarrow> string \<Rightarrow> int \<Rightarrow> int \<Rightarrow> int \<Rightarrow> int \<Rightarrow> (int \<Rightarrow> int) \<Rightarrow> txheap
   \<Rightarrow> Block outcome \<times> txheap" where
  "createGenesisBlock maxLength d creator allocation txTime1 txTime2 blockTime clock h =
     (let genesisTransaction = length h;
          h1 = h @ [createCoinbase ''genesis_address_1a2b3c4d5e6f7890'' 0 50 txTime1];
          withCreator = (creator \<noteq> [] \<and> allocation \<noteq> 0);
          creatorTransaction = length h1;
          h2 = (if withCreator then h1 @ [createCoinbase creator 0 allocation txTime2] else h1);
          txs = (if withCreator then [genesisTransaction, creatorTransaction]
                 else [genesisTransaction]);
          block = Block_new zero_hash txs d 0 blockTime
      in Block_mine maxLength clock block h2)"

definition initializeGenesis ::
  "int \<Rightarrow> Blockchain \<Rightarrow> int \<Rightarrow> int \<Rightarrow> int \<Rightarrow> (int \<Rightarrow> int) \<Rightarrow> txheap
   \<Rightarrow> unit outcome \<times> Blockchain \<times> txheap" where
  "initializeGenesis maxLength s txTime1 txTime2 blockTime clock h =
     (case createGenesisBlock maxLength (int (Blockchain.difficulty s)) (creatorAddress s)
             (creatorAllocation s) txTime1 txTime2 blockTime clock h of
        (Threw e, h1) \<Rightarrow> (Threw e, s, h1)
      | (Returned genesisBlock, h1) \<Rightarrow>
          (Returned (),
           s\<lparr>chain := chain s @ [genesisBlock],
             utxoSet := fold (\<lambda>tx. addOutputs (Transaction.hash tx) 0 0 (outputs tx))
                          (map (nth h1) (transactions genesisBlock)) (utxoSet s)\<rparr>,
           h1))"

section \<open>The wallet\<close>

record Wallet =
  privateKey :: string
  publicKey :: string
  address :: string

definition getUtxos :: "Wallet \<Rightarrow> Blockchain \<Rightarrow> UTXO list" where
  "getUtxos w s = getUtxosForAddress s (address w)"

text \<open>
  The selection loop of \<^verbatim>\<open>createTransaction\<close>: it takes the next UTXO, adds its amount,
  and stops as soon as the amount selected reaches \<open>required\<close>.
\<close>

fun selectUtxos :: "UTXO list \<Rightarrow> UTXO list \<Rightarrow> int \<Rightarrow> int \<Rightarrow> UTXO list \<times> int" where
  "selectUtxos [] selectedUtxos selectedAmount required = (selectedUtxos, selectedAmount)"
| "selectUtxos (utxo # utxos) selectedUtxos selectedAmount required =
     (let selectedUtxos' = selectedUtxos @ [utxo];
          selectedAmount' = selectedAmount + amount (output utxo)
      in if selectedAmount' \<ge> required then (selectedUtxos', selectedAmount')
         else selectUtxos utxos selectedUtxos' selectedAmount' required)"

text \<open>
  \<^verbatim>\<open>createTransaction\<close> makes a new transaction object, which no other object refers to
  yet: it returns its value. \<open>now\<close> is the clock reading of the transaction's constructor.
  \<^verbatim>\<open>Array.prototype.sort\<close> is stable, as \<^const>\<open>sort_key\<close> is.
\<close>

definition createTransaction ::
  "Wallet \<Rightarrow> string \<Rightarrow> int \<Rightarrow> int \<Rightarrow> Blockchain \<Rightarrow> int \<Rightarrow> Transaction option outcome" where
  "createTransaction w recipient amt f s now =
     (let availableUtxos = getUtxos w s
      in if length availableUtxos = 0 then Returned None
         else
           let totalAvailable = sum_list (map (\<lambda>utxo. amount (output utxo)) availableUtxos)
           in if totalAvailable < amt + f then Returned None
              else
                let (selectedUtxos, selectedAmount) =
                      selectUtxos (sort_key blockHeight availableUtxos) [] 0 (amt + f);
                    ins = map (\<lambda>utxo. \<lparr>previousTxHash = txHash utxo,
                                         outputIndex = UTXO.outputIndex utxo,
                                         signature = [],
                                         publicKey = Wallet.publicKey w\<rparr>) selectedUtxos;
                    change = selectedAmount - amt - f;
                    outs = \<lparr>amount = amt, recipientAddress = recipient\<rparr> #
                           (if change > 0 then [\<lparr>amount = change, recipientAddress = address w\<rparr>]
                            else []);
                    tx = Transaction_new ins outs f now;
                    privateKeys = replicate (length ins) (privateKey w)
                in case signInputs tx privateKeys of
                     Threw e \<Rightarrow> Threw e
                   | Returned signed \<Rightarrow> Returned (Some signed))"

text \<open>\<^verbatim>\<open>sendTransaction\<close> hands the new object to \<^verbatim>\<open>addTransaction\<close>.\<close>

definition sendTransaction ::
  "Wallet \<Rightarrow> string \<Rightarrow> int \<Rightarrow> int \<Rightarrow> Blockchain \<Rightarrow> int \<Rightarrow> txheap
   \<Rightarrow> bool outcome \<times> Blockchain \<times> txheap" where
  "sendTransaction w recipient amt f s now h =
     (case createTransaction w recipient amt f s now of
        Threw e \<Rightarrow> (Threw e, s, h)
      | Returned None \<Rightarrow> (Returned False, s, h)
      | Returned (Some tx) \<Rightarrow>
          (case addTransaction s (length h) (h @ [tx]) of
             (ok, s') \<Rightarrow> (Returned ok, s', h @ [tx])))"

section \<open>Notions used in the statements\<close>

text \<open>
  The block tried at the \<open>n\<close>-th pass of the loop that starts at block \<open>b\<close> with \<open>attempts\<close>
  on heap \<open>h\<close>.
\<close>

fun candidate :: "(int \<Rightarrow> int) \<Rightarrow> Block \<Rightarrow> int \<Rightarrow> txheap \<Rightarrow> nat \<Rightarrow> Block" where
  "candidate clock b attempts h 0 = fst (Block_calculateHash b h)"
| "candidate clock b attempts h (Suc n) =
     (let (b1, h1) = Block_calculateHash b h;
          b2 = b1\<lparr>header := (header b1)\<lparr>nonce := nonce (header b1) + 1\<rparr>\<rparr>;
          attempts' = attempts + 1;
          b3 = (if attempts' mod 10000 = 0 \<and> attempts' > 0
                then b2\<lparr>header := (header b2)\<lparr>BlockHeader.timestamp := clock attempts'\<rparr>\<rparr>
                else b2)
      in candidate clock b3 attempts' h1 n)"

declare candidate.simps [simp del]


text \<open>The ledger after the writes of \<^verbatim>\<open>addBlock\<close>, before the difficulty is adjusted.\<close>

definition admit :: "Blockchain \<Rightarrow> Block \<Rightarrow> txheap \<Rightarrow> Blockchain" where
  "admit s b h = removeMinedTransactions b h (updateUtxoSet b h (s\<lparr>chain := chain s @ [b]\<rparr>))"

section \<open>An example ledger\<close>

text \<open>
  The longest string of the V8 engine on a 64-bit platform has \<open>2^29 - 24\<close> characters.
\<close>

definition maxStringLength :: int where
  "maxStringLength = 536870888"

text \<open>
  The ledger and the heap after \<^verbatim>\<open>initializeGenesis\<close>, when every clock reading is
  1700000000005: the genesis block is mined at its first nonce.
\<close>

definition genesis_time :: int where
  "genesis_time = 1700000000005"

definition genesis_coinbase :: Transaction where
  "genesis_coinbase =
     \<lparr>Transaction.hash = ''0aef38fba40c7c10e26cd1eab9cd90bebef6824082f2ece0d17bc0784fced43e'',
      Transaction.timestamp = 1700000000005,
      inputs =
        [\<lparr>previousTxHash = ''0000000000000000000000000000000000000000000000000000000000000000'',
          outputIndex = 4294967295,
          signature = ''coinbase_0'',
          publicKey = ''coinbase_0''\<rparr>],
      outputs = [\<lparr>amount = 50, recipientAddress = ''genesis_address_1a2b3c4d5e6f7890''\<rparr>],
      fee = 0\<rparr>"

definition creator_coinbase :: Transaction where
  "creator_coinbase =
     \<lparr>Transaction.hash = ''d7f268b7dac8d444a53e570cd69627faed1962971ea04346d23ecc11c3f534b2'',
      Transaction.timestamp = 1700000000005,
      inputs =
        [\<lparr>previousTxHash = ''0000000000000000000000000000000000000000000000000000000000000000'',
          outputIndex = 4294967295,
          signature = ''coinbase_0'',
          publicKey = ''coinbase_0''\<rparr>],
      outputs = [\<lparr>amount = 1000000, recipientAddress = ''1a964aaf3bc24324b1b9be5a2b115f2108ea309e''\<rparr>],
      fee = 0\<rparr>"

definition genesis_heap :: txheap where
  "genesis_heap = [genesis_coinbase, creator_coinbase]"

definition genesis_block :: Block where
  "genesis_block =
     \<lparr>Block.hash = ''0ad72c6fc8766ac9cc421c7df8d196ec18a18dff1fbfd737ab592093283d2206'',
      header =
        \<lparr>version = 1,
         previousBlockHash = ''0000000000000000000000000000000000000000000000000000000000000000'',
         merkleRoot = ''b7a59d5e338090de7ef3a32bc10b598a395ec241988431de1aeea05fcc165223'',
         BlockHeader.timestamp = 1700000000005,
         BlockHeader.difficulty = 1, nonce = 0\<rparr>,
      transactions = [0, 1],
      height = 0\<rparr>"

definition genesis_ledger :: Blockchain where
  "genesis_ledger =
     Blockchain_new
      \<lparr>chain := [genesis_block],
       utxoSet :=
        [(''0aef38fba40c7c10e26cd1eab9cd90bebef6824082f2ece0d17bc0784fced43e:0'',
         \<lparr>txHash = ''0aef38fba40c7c10e26cd1eab9cd90bebef6824082f2ece0d17bc0784fced43e'', outputIndex = 0,
          output = \<lparr>amount = 50, recipientAddress = ''genesis_address_1a2b3c4d5e6f7890''\<rparr>, blockHeight = 0\<rparr>),
         (''d7f268b7dac8d444a53e570cd69627faed1962971ea04346d23ecc11c3f534b2:0'',
         \<lparr>txHash = ''d7f268b7dac8d444a53e570cd69627faed1962971ea04346d23ecc11c3f534b2'', outputIndex = 0,
          output = \<lparr>amount = 1000000, recipientAddress = ''1a964aaf3bc24324b1b9be5a2b115f2108ea309e''\<rparr>, blockHeight = 0\<rparr>)]\<rparr>"

text \<open>
  Two transactions that both spend the creator's output of the genesis block, each paying
  the whole amount to another address. Their hashes are the ones \<^verbatim>\<open>calculateHash\<close> gives,
  and each signature is the value that \<^verbatim>\<open>verifySignature\<close> computes from the signed data and
  the public key.
\<close>

definition spend_one :: Transaction where
  "spend_one =
     \<lparr>Transaction.hash = ''b76599ca40d264d7aad2dbe95209f7b9260ab811822b38d275ad503dc2785105'',
      Transaction.timestamp = 1700000001005,
      inputs =
        [\<lparr>previousTxHash = ''d7f268b7dac8d444a53e570cd69627faed1962971ea04346d23ecc11c3f534b2'',
          outputIndex = 0,
          signature = ''c2ebc1289d110cb596140cb7f0a72c8eb4e4271919890bef7a60e00514e8cd22'',
          publicKey = ''046f66fbc5bdebf2fa34814e877097a0754155b31c2f85628c4f953177a4056a''\<rparr>],
      outputs = [\<lparr>amount = 1000000, recipientAddress = ''mallory_address_one''\<rparr>],
      fee = 0\<rparr>"

definition spend_two :: Transaction where
  "spend_two =
     \<lparr>Transaction.hash = ''d3bb3a68e991aebf2527e6129053f8802d866d2fe2c768a92ae327bb090abdb8'',
      Transaction.timestamp = 1700000002005,
      inputs =
        [\<lparr>previousTxHash = ''d7f268b7dac8d444a53e570cd69627faed1962971ea04346d23ecc11c3f534b2'',
          outputIndex = 0,
          signature = ''ee1347648fbfdd244a7ee3112fa32cc15c2b1b244af1f21602ce9f168e847b9b'',
          publicKey = ''046f66fbc5bdebf2fa34814e877097a0754155b31c2f85628c4f953177a4056a''\<rparr>],
      outputs = [\<lparr>amount = 1000000, recipientAddress = ''mallory_address_two''\<rparr>],
      fee = 0\<rparr>"

text \<open>The key under which the input of a coinbase transaction is looked up.\<close>

definition sentinelKey :: string where
  "sentinelKey = utxoKey zero_hash 4294967295"







text \<open>
  The block that \<^verbatim>\<open>mineBlock\<close> mines on the example ledger when the block's constructor
  reads the clock at 1700000010002: the second nonce meets the target. And the ledger and
  the heap with that block admitted.
\<close>

definition first_block :: Block where
  "first_block =
     \<lparr>Block.hash = ''0f4fd65b3e97ffbebe2a0297b1a9cbfc8c116fd3a45e4acd8463b1121288faa5'',
      header =
        \<lparr>version = 1,
         previousBlockHash = ''0ad72c6fc8766ac9cc421c7df8d196ec18a18dff1fbfd737ab592093283d2206'',
         merkleRoot = ''61c3c7f847b029e08d02e5cfc88e97254d6662d240cc93754b3139ec8ec27aed'',
         BlockHeader.timestamp = 1700000010002,
         BlockHeader.difficulty = 1, nonce = 1\<rparr>,
      transactions = [2],
      height = 1\<rparr>"

definition first_ledger :: Blockchain where
  "first_ledger =
     genesis_ledger
      \<lparr>chain := [genesis_block, first_block],
       utxoSet :=
        [(''0aef38fba40c7c10e26cd1eab9cd90bebef6824082f2ece0d17bc0784fced43e:0'',
         \<lparr>txHash = ''0aef38fba40c7c10e26cd1eab9cd90bebef6824082f2ece0d17bc0784fced43e'', outputIndex = 0,
          output = \<lparr>amount = 50, recipientAddress = ''genesis_address_1a2b3c4d5e6f7890''\<rparr>, blockHeight = 0\<rparr>),
         (''d7f268b7dac8d444a53e570cd69627faed1962971ea04346d23ecc11c3f534b2:0'',
         \<lparr>txHash = ''d7f268b7dac8d444a53e570cd69627faed1962971ea04346d23ecc11c3f534b2'', outputIndex = 0,
          output = \<lparr>amount = 1000000, recipientAddress = ''1a964aaf3bc24324b1b9be5a2b115f2108ea309e''\<rparr>, blockHeight = 0\<rparr>),
         (''61c3c7f847b029e08d02e5cfc88e97254d6662d240cc93754b3139ec8ec27aed:0'',
         \<lparr>txHash = ''61c3c7f847b029e08d02e5cfc88e97254d6662d240cc93754b3139ec8ec27aed'', outputIndex = 0,
          output = \<lparr>amount = 50, recipientAddress = ''miner_address''\<rparr>, blockHeight = 1\<rparr>)]\<rparr>"



text \<open>
  Example ledger for retargeting: nine blocks 500 milliseconds apart, and a tenth block
  that follows them, with its coinbase transaction on the heap.
\<close>

definition spaced_block :: "int \<Rightarrow> Block" where
  "spaced_block i = Block_new [] [] 0 i (1700000000000 + 500 * i)"

definition spaced_ledger :: Blockchain where
  "spaced_ledger = Blockchain_new\<lparr>chain := map spaced_block [0, 1, 2, 3, 4, 5, 6, 7, 8]\<rparr>"

definition tenth_block :: Block where
  "tenth_block = Block_new [] [0] 0 9 1700000004500"

definition tenth_heap :: txheap where
  "tenth_heap = [createCoinbase ''miner'' 9 50 1700000004500]"

section \<open>Properties of the cryptographic utilities\<close>

subsection \<open>Signatures\<close>

lemma verifySignature_signMessage_iff:
  "verifySignature m (signMessage m sk) pk \<longleftrightarrow>
     sha256 (sha256 m @ ''_'' @ sk) = sha256 (sha256 m @ ''_'' @ sha256 (''reverse_'' @ pk))"
  by (simp add: verifySignature_def signMessage_def getPrivateKeyFromPublic_def)

lemma sha256_message: "sha256 ''pay 10 MRC to bob'' = ''3f31dda920b8e00ea735bfabb0020cc5123e0311e5cf486522e66e2626da6b72''"
  by code_simp
lemma generatePublicKey_example: "generatePublicKey ''0123456789abcdef0123456789abcdef0123456789abcdef0123456789abcdef'' = ''046f66fbc5bdebf2fa34814e877097a0754155b31c2f85628c4f953177a4056a''"
  by code_simp
lemma getPrivateKeyFromPublic_example: "getPrivateKeyFromPublic ''046f66fbc5bdebf2fa34814e877097a0754155b31c2f85628c4f953177a4056a'' = ''662d7c1232b4e270fa96e3b32ef566397b763f56699bdae8f5fbea124139d114''"
  by code_simp
lemma signMessage_example: "sha256 (''3f31dda920b8e00ea735bfabb0020cc5123e0311e5cf486522e66e2626da6b72'' @ ''_'' @ ''0123456789abcdef0123456789abcdef0123456789abcdef0123456789abcdef'') = ''3a326e91c66db42f34ad3fc8d5f4fb04bf9173e67cf0758e00cdd693d4d4e304''"
  by code_simp
lemma expected_example: "sha256 (''3f31dda920b8e00ea735bfabb0020cc5123e0311e5cf486522e66e2626da6b72'' @ ''_'' @ ''662d7c1232b4e270fa96e3b32ef566397b763f56699bdae8f5fbea124139d114'') = ''f62ca0d7bf6517e43886df0c727c0727978268b2a244d95c6c4c6b0c322dd133''"
  by code_simp
text \<open>
  Claim C1. The claim: for every message and private key, \<^verbatim>\<open>verifySignature\<close> accepts the
  signature that \<^verbatim>\<open>signMessage\<close> produces, against the public key that
  \<^verbatim>\<open>generatePublicKey\<close> derives. The code does not do this: \<^verbatim>\<open>verifySignature\<close> rebuilds
  the expected signature from \<^verbatim>\<open>getPrivateKeyFromPublic(publicKey)\<close>, which is
  \<^verbatim>\<open>sha256('reverse_' + publicKey)\<close> and not the private key the signer used. At the message
  and the 64-digit key below, the signature made by \<^verbatim>\<open>signMessage\<close> is rejected.
\<close>

theorem verifySignature_rejects_signMessage:
  "\<not> verifySignature ''pay 10 MRC to bob'' (signMessage ''pay 10 MRC to bob'' ''0123456789abcdef0123456789abcdef0123456789abcdef0123456789abcdef'') (generatePublicKey ''0123456789abcdef0123456789abcdef0123456789abcdef0123456789abcdef'')"
  by (simp add: verifySignature_def signMessage_def sha256_message generatePublicKey_example
      getPrivateKeyFromPublic_example signMessage_example expected_example del: append.simps)

subsection \<open>The merkle root\<close>

lemma newLevel_nth:
  "i < length (newLevel hashes) \<Longrightarrow>
   newLevel hashes ! i =
     sha256 (hashes ! (2 * i) @ (if 2 * i + 1 < length hashes then hashes ! (2 * i + 1) else hashes ! (2 * i)))"
proof (induction hashes arbitrary: i rule: newLevel.induct)
  case 1
  then show ?case by simp
next
  case (2 left)
  then show ?case by simp
next
  case (3 left right hashes)
  show ?case
  proof (cases i)
    case 0
    then show ?thesis by simp
  next
    case (Suc j)
    with 3 show ?thesis by simp
  qed
qed

lemma calculateMerkleRoot_levels:
  "hashes \<noteq> [] \<Longrightarrow> \<exists>n. (newLevel ^^ n) hashes = [calculateMerkleRoot hashes]"
proof (induction hashes rule: calculateMerkleRoot.induct)
  case (1 hashes)
  show ?case
  proof (cases "length hashes = 1")
    case True
    then have "hashes = [hd hashes]"
      by (cases hashes) simp_all
    then have "(newLevel ^^ 0) hashes = [calculateMerkleRoot hashes]"
      using True by (simp add: calculateMerkleRoot.simps)
    then show ?thesis by blast
  next
    case False
    with "1.prems" have len: "length hashes \<noteq> 0" "length hashes \<noteq> 1"
      by simp_all
    then have "newLevel hashes \<noteq> []"
      by (cases hashes rule: newLevel.cases) simp_all
    with "1.IH" len obtain n where "(newLevel ^^ n) (newLevel hashes) = [calculateMerkleRoot (newLevel hashes)]"
      by blast
    then have "(newLevel ^^ Suc n) hashes = [calculateMerkleRoot hashes]"
      using len by (simp add: funpow_swap1 calculateMerkleRoot.simps[of hashes])
    then show ?thesis by blast
  qed
qed

lemma merkle_ab:
  "sha256 (''ca978112ca1bbdcafac231b39a23dc4da786eff8147c4e72b9807785afee48bb'' @
           ''3e23e8160039594a33894f6564e1b1348bbd7a0088d42c4acb73eeaed59c009d'') =
   ''62af5c3cb8da3e4f25061e829ebeea5c7513c54949115b1acc225930a90154da''"
  by code_simp

lemma merkle_ba:
  "sha256 (''3e23e8160039594a33894f6564e1b1348bbd7a0088d42c4acb73eeaed59c009d'' @
           ''ca978112ca1bbdcafac231b39a23dc4da786eff8147c4e72b9807785afee48bb'') =
   ''ab19ec537f09499b26f0f62eed7aefad46ab9f498e06a7328ce8e8ef90da6d86''"
  by code_simp

lemma calculateMerkleRoot_pair: "calculateMerkleRoot [l, r] = sha256 (l @ r)"
  by (simp add: calculateMerkleRoot.simps)

text \<open>
  Claim C9. \<^verbatim>\<open>calculateMerkleRoot\<close> returns the hash of the empty string for the empty list and
  the element itself for a one-element list; for two or more hashes it is the root of the
  next level, which has one hash per adjacent pair, a last odd hash being paired with
  itself; the levels shrink until one hash remains, and that hash is the root. The result
  is a function of the list (two runs on the same list agree), and it depends on the order:
  the two orders of the digests of \<open>a\<close> and \<open>b\<close> have different roots.
\<close>

theorem calculateMerkleRoot_spec:
  "calculateMerkleRoot [] = sha256 ''''
   \<and> calculateMerkleRoot [h] = h
   \<and> (2 \<le> length hashes \<longrightarrow>
        calculateMerkleRoot hashes = calculateMerkleRoot (newLevel hashes)
        \<and> length (newLevel hashes) = (length hashes + 1) div 2
        \<and> (\<forall>i < length (newLevel hashes).
              newLevel hashes ! i =
                sha256 (hashes ! (2 * i) @
                  (if 2 * i + 1 < length hashes then hashes ! (2 * i + 1) else hashes ! (2 * i)))))
   \<and> (hashes \<noteq> [] \<longrightarrow> (\<exists>n. (newLevel ^^ n) hashes = [calculateMerkleRoot hashes]))
   \<and> (hashes = hashes' \<longrightarrow> calculateMerkleRoot hashes = calculateMerkleRoot hashes')
   \<and> calculateMerkleRoot
         [''ca978112ca1bbdcafac231b39a23dc4da786eff8147c4e72b9807785afee48bb'',
          ''3e23e8160039594a33894f6564e1b1348bbd7a0088d42c4acb73eeaed59c009d'']
       \<noteq> calculateMerkleRoot
         [''3e23e8160039594a33894f6564e1b1348bbd7a0088d42c4acb73eeaed59c009d'',
          ''ca978112ca1bbdcafac231b39a23dc4da786eff8147c4e72b9807785afee48bb'']"
proof (intro conjI impI allI)
  show "calculateMerkleRoot [] = sha256 ''''"
    by (simp add: calculateMerkleRoot.simps)
  show "calculateMerkleRoot [h] = h"
    by (simp add: calculateMerkleRoot.simps)
  show "calculateMerkleRoot hashes = calculateMerkleRoot (newLevel hashes)" if "2 \<le> length hashes"
  proof -
    from that have "length hashes \<noteq> 0" and "length hashes \<noteq> 1"
      by auto
    then show ?thesis
      by (subst calculateMerkleRoot.simps) simp
  qed
  show "length (newLevel hashes) = (length hashes + 1) div 2"
    by (rule length_newLevel)
  show "newLevel hashes ! i =
      sha256 (hashes ! (2 * i) @
        (if 2 * i + 1 < length hashes then hashes ! (2 * i + 1) else hashes ! (2 * i)))"
    if "i < length (newLevel hashes)" for i
    using that by (rule newLevel_nth)
  show "\<exists>n. (newLevel ^^ n) hashes = [calculateMerkleRoot hashes]" if "hashes \<noteq> []"
    using that by (rule calculateMerkleRoot_levels)
  show "calculateMerkleRoot hashes = calculateMerkleRoot hashes'" if "hashes = hashes'"
    using that by simp
  show "calculateMerkleRoot
         [''ca978112ca1bbdcafac231b39a23dc4da786eff8147c4e72b9807785afee48bb'',
          ''3e23e8160039594a33894f6564e1b1348bbd7a0088d42c4acb73eeaed59c009d'']
       \<noteq> calculateMerkleRoot
         [''3e23e8160039594a33894f6564e1b1348bbd7a0088d42c4acb73eeaed59c009d'',
          ''ca978112ca1bbdcafac231b39a23dc4da786eff8147c4e72b9807785afee48bb'']"
    unfolding calculateMerkleRoot_pair merkle_ab merkle_ba by simp
qed

theorem calculateMerkleRoot_spec_witness:
  "2 \<le> length [''a'', ''b'', ''c''] \<and> [''a'', ''b'', ''c''] \<noteq> []
   \<and> calculateMerkleRoot [''a'', ''b'', ''c''] = sha256 (sha256 ''ab'' @ sha256 ''cc'')
   \<and> newLevel [''a'', ''b'', ''c''] = [sha256 ''ab'', sha256 ''cc'']"
  using calculateMerkleRoot_spec [of "h" "[''a'', ''b'', ''c'']" "[''a'', ''b'', ''c'']"]
  by (simp add: calculateMerkleRoot_pair)

section \<open>Properties of the transaction objects\<close>

lemma length_round_fin [simp]: "length (round_fin st t1 t2) = length st"
  by (cases "(st, t1, t2)" rule: round_fin.cases) simp_all

lemma length_round_step [simp]: "length (round_step st k w) = length st"
  by (cases "(st, k, w)" rule: round_step.cases) simp_all

lemma length_rounds [simp]: "length (rounds ks ws st) = length st"
  by (induction ks arbitrary: ws st) simp_all

lemma length_compress [simp]: "length (compress st blk) = length st"
  by (simp add: compress_def)

lemma length_foldl_compress [simp]: "length (foldl compress st bs) = length st"
  by (induction bs arbitrary: st) simp_all

lemma length_sha256: "length (sha256 s) = 64"
proof -
  have "length (concat (map hex32 ws)) = 8 * length ws" for ws
    by (induction ws) (simp_all add: hex32_def)
  then show ?thesis
    by (simp add: sha256_def initial_hash_def)
qed

lemma sha256_nonempty [simp]: "sha256 s \<noteq> []"
  using length_sha256[of s] by auto

lemma Transaction_calculateHash_hash [simp]:
  "Transaction.hash (Transaction_calculateHash tx) \<noteq> []"
  by (simp add: Transaction_calculateHash_def)

lemma length_ensureHash [simp]: "length (ensureHash r h) = length h"
  by (simp add: ensureHash_def)

lemma length_fold_ensureHash [simp]: "length (fold ensureHash rs h) = length h"
  by (induction rs arbitrary: h) simp_all

lemma ensureHash_nth:
  "x < length h \<Longrightarrow>
   ensureHash r h ! x =
     (if x = r \<and> Transaction.hash (h ! x) = [] then Transaction_calculateHash (h ! x) else h ! x)"
  by (auto simp: ensureHash_def nth_list_update)

lemma fold_ensureHash_nth:
  "x < length h \<Longrightarrow>
   fold ensureHash rs h ! x =
     (if x \<in> set rs \<and> Transaction.hash (h ! x) = [] then Transaction_calculateHash (h ! x)
      else h ! x)"
proof (induction rs arbitrary: h)
  case Nil
  then show ?case by simp
next
  case (Cons r rs)
  then show ?case
    by (auto simp: ensureHash_nth)
qed

lemma fold_ensureHash_idem:
  "fold ensureHash rs (fold ensureHash rs h) = fold ensureHash rs h"
  by (rule nth_equalityI) (simp_all add: fold_ensureHash_nth)


lemma hashTransactions_heap [simp]:
  "snd (hashTransactions rs h) = fold ensureHash rs h"
  by (induction rs arbitrary: h) (simp_all add: Let_def split_beta)

lemma Block_calculateMerkleRoot_heap [simp]:
  "snd (Block_calculateMerkleRoot b h) = fold ensureHash (transactions b) h"
  by (simp add: Block_calculateMerkleRoot_def Let_def split_beta)

lemma Block_calculateHash_heap [simp]:
  "snd (Block_calculateHash b h) = fold ensureHash (transactions b) h"
  by (simp add: Block_calculateHash_def Let_def split_beta)

lemma Block_calculateMerkleRoot_fields [simp]:
  "nonce (header (fst (Block_calculateMerkleRoot b h))) = nonce (header b)"
  "BlockHeader.difficulty (header (fst (Block_calculateMerkleRoot b h))) = BlockHeader.difficulty (header b)"
  "BlockHeader.timestamp (header (fst (Block_calculateMerkleRoot b h))) = BlockHeader.timestamp (header b)"
  "previousBlockHash (header (fst (Block_calculateMerkleRoot b h))) = previousBlockHash (header b)"
  "transactions (fst (Block_calculateMerkleRoot b h)) = transactions b"
  "height (fst (Block_calculateMerkleRoot b h)) = height b"
  by (simp_all add: Block_calculateMerkleRoot_def Let_def split_beta)

lemma Block_calculateHash_fields [simp]:
  "nonce (header (fst (Block_calculateHash b h))) = nonce (header b)"
  "BlockHeader.difficulty (header (fst (Block_calculateHash b h))) = BlockHeader.difficulty (header b)"
  "BlockHeader.timestamp (header (fst (Block_calculateHash b h))) = BlockHeader.timestamp (header b)"
  "previousBlockHash (header (fst (Block_calculateHash b h))) = previousBlockHash (header b)"
  "transactions (fst (Block_calculateHash b h)) = transactions b"
  "height (fst (Block_calculateHash b h)) = height b"
  by (simp_all add: Block_calculateHash_def Let_def split_beta)


section \<open>Properties of blocks\<close>

subsection \<open>Mining\<close>

lemma mineLoop_unfold:
  "mineLoop maxLength clock b attempts h =
     (case isValidProofOfWork maxLength (Block.hash (candidate clock b attempts h 0))
             (BlockHeader.difficulty (header b)) of
        Threw e \<Rightarrow> (Threw e, fold ensureHash (transactions b) h)
      | Returned found \<Rightarrow>
          if found then (Returned (candidate clock b attempts h 0), fold ensureHash (transactions b) h)
          else if attempts + 1 > 1000000 then (Threw MiningTimeout, fold ensureHash (transactions b) h)
          else mineLoop maxLength clock
                 (let b1 = fst (Block_calculateHash b h);
                      b2 = b1\<lparr>header := (header b1)\<lparr>nonce := nonce (header b1) + 1\<rparr>\<rparr>
                  in if (attempts + 1) mod 10000 = 0 \<and> attempts + 1 > 0
                     then b2\<lparr>header := (header b2)\<lparr>BlockHeader.timestamp := clock (attempts + 1)\<rparr>\<rparr>
                     else b2)
                 (attempts + 1) (fold ensureHash (transactions b) h))"
proof -
  obtain b1 h1 where bh: "Block_calculateHash b h = (b1, h1)"
    by (cases "Block_calculateHash b h")
  then have h1: "h1 = fold ensureHash (transactions b) h"
    using Block_calculateHash_heap[of b h] by simp
  have d: "BlockHeader.difficulty (header b1) = BlockHeader.difficulty (header b)"
    using Block_calculateHash_fields(2)[of b h] bh by simp
  show ?thesis
    by (subst mineLoop.simps)
       (simp add: bh h1[symmetric] d Let_def candidate.simps split: outcome.splits)
qed




lemma isValidProofOfWork_in_range:
  "0 \<le> d \<Longrightarrow> d \<le> maxLength \<Longrightarrow>
   isValidProofOfWork maxLength str d = Returned (take (nat d) str = replicate (nat d) (CHR ''0''))"
  by (simp add: isValidProofOfWork_def)

lemma isValidProofOfWork_out_of_range:
  "d < 0 \<or> maxLength < d \<Longrightarrow> isValidProofOfWork maxLength str d = Threw RangeError"
  by (simp add: isValidProofOfWork_def)

lemma isValidProofOfWork_Threw:
  "isValidProofOfWork maxLength str d = Threw e \<longleftrightarrow> (d < 0 \<or> maxLength < d) \<and> e = RangeError"
  by (auto simp: isValidProofOfWork_def)

lemma mineLoop_RangeError:
  "BlockHeader.difficulty (header b) < 0 \<or> maxLength < BlockHeader.difficulty (header b) \<Longrightarrow>
   fst (mineLoop maxLength clock b attempts h) = Threw RangeError"
  by (subst mineLoop_unfold) (simp add: isValidProofOfWork_out_of_range)



lemma mineLoop_meets:
  assumes "fst (mineLoop maxLength clock b attempts h) = Returned b'"
  shows "0 \<le> BlockHeader.difficulty (header b) \<and> BlockHeader.difficulty (header b) \<le> maxLength"
proof (rule ccontr)
  assume "\<not> ?thesis"
  then have "BlockHeader.difficulty (header b) < 0 \<or> maxLength < BlockHeader.difficulty (header b)"
    by auto
  from mineLoop_RangeError[OF this] assms show False
    by simp
qed





section \<open>Properties of the ledger\<close>

subsection \<open>Block admission on failure\<close>

lemma Block_isValid_heap [simp]:
  "snd (snd (Block_isValid maxLength b p now h)) = fold ensureHash (transactions b) h"
  by (simp add: Block_isValid_def Let_def split_beta fold_ensureHash_idem
      split: outcome.splits option.splits)

lemma Block_isValid_fields [simp]:
  "BlockHeader.timestamp (header (fst (snd (Block_isValid maxLength b p now h))))
     = BlockHeader.timestamp (header b)"
  "transactions (fst (snd (Block_isValid maxLength b p now h))) = transactions b"
  "height (fst (snd (Block_isValid maxLength b p now h))) = height b"
  by (simp_all add: Block_isValid_def Let_def split_beta split: outcome.splits option.splits)

lemma addBlock_unfold:
  "addBlock maxLength s newBlock now h =
     (let r = Block_isValid maxLength newBlock (getLatestBlock s) now h;
          b = fst (snd r); h1 = fold ensureHash (transactions newBlock) h
      in case fst r of
           Threw e \<Rightarrow> (Threw e, s, h1)
         | Returned valid \<Rightarrow>
             if \<not> valid \<or> list_ex (\<lambda>tx. \<not> Transaction_isValid tx (utxoSet s))
                             (map (nth h1) (tl (transactions newBlock)))
             then (Returned False, s, h1)
             else (case adjustDifficulty (admit s b h1) of
                     Returned s4 \<Rightarrow> (Returned True, s4, h1)
                   | Threw e \<Rightarrow> (Threw e, admit s b h1, h1)))"
proof -
  obtain r b h1 where v: "Block_isValid maxLength newBlock (getLatestBlock s) now h = (r, b, h1)"
    by (cases "Block_isValid maxLength newBlock (getLatestBlock s) now h")
  have h1: "h1 = fold ensureHash (transactions newBlock) h"
    using Block_isValid_heap[of maxLength newBlock "getLatestBlock s" now h] by (simp add: v)
  have tb: "transactions b = transactions newBlock"
    using Block_isValid_fields(2)[of maxLength newBlock "getLatestBlock s" now h] by (simp add: v)
  show ?thesis
    by (auto simp: addBlock_def admit_def Let_def v h1[symmetric] tb split: outcome.splits)
qed













subsection \<open>Difficulty retargeting\<close>

lemma adjustDifficulty_off_boundary:
  "difficultyAdjustmentInterval s = 0 \<or> length (chain s) mod difficultyAdjustmentInterval s \<noteq> 0
   \<Longrightarrow> adjustDifficulty s = Returned s"
  by (auto simp: adjustDifficulty_def Let_def)

lemma adjustDifficulty_on_boundary:
  assumes "chain s \<noteq> []" and "difficultyAdjustmentInterval s \<noteq> 0"
    and "length (chain s) mod difficultyAdjustmentInterval s = 0"
    and "targetBlockTime s \<noteq> 0"
  shows "adjustDifficulty s =
     (let n = length (chain s); k = difficultyAdjustmentInterval s;
          timeActual = BlockHeader.timestamp (header (chain s ! (n - 1)))
                       - BlockHeader.timestamp (header (chain s ! (n - k)));
          timeExpected = targetBlockTime s * int k;
          ratio = (of_int timeActual / of_int timeExpected :: rat)
      in Returned (s\<lparr>Blockchain.difficulty :=
           if ratio < 1 / 4 then Blockchain.difficulty s + 1
           else if ratio > 4 then max 1 (Blockchain.difficulty s - 1)
           else Blockchain.difficulty s\<rparr>))"
  using assms by (simp add: adjustDifficulty_def Let_def js_div_def)

lemma telescope_bounds:
  fixes f :: "nat \<Rightarrow> int"
  assumes "\<forall>i<m. lo \<le> f (Suc i) - f i \<and> f (Suc i) - f i \<le> hi"
  shows "int m * lo \<le> f m - f 0 \<and> f m - f 0 \<le> int m * hi"
  using assms
proof (induction m)
  case 0
  then show ?case by simp
next
  case (Suc m)
  then have IH: "int m * lo \<le> f m - f 0 \<and> f m - f 0 \<le> int m * hi"
    by simp
  from Suc.prems have "lo \<le> f (Suc m) - f m \<and> f (Suc m) - f m \<le> hi"
    by simp
  with IH show ?case
    by (simp add: algebra_simps)
qed

lemma admit_fields [simp]:
  "chain (admit s b h) = chain s @ [b]"
  "Blockchain.difficulty (admit s b h) = Blockchain.difficulty s"
  "targetBlockTime (admit s b h) = targetBlockTime s"
  "difficultyAdjustmentInterval (admit s b h) = difficultyAdjustmentInterval s"
  "miningReward (admit s b h) = miningReward s"
  "maxSupply (admit s b h) = maxSupply s"
  "utxoSet (admit s b h) =
     fold (applyTransaction (height b)) (map (nth h) (transactions b)) (utxoSet s)"
  "mempool (admit s b h) =
     filter (\<lambda>r. Transaction.hash (h ! r) \<notin> set (map Transaction.hash (map (nth h) (transactions b))))
       (mempool s)"
  by (simp_all add: admit_def updateUtxoSet_def removeMinedTransactions_def Let_def)

lemma adjustDifficulty_never_throws:
  "chain s \<noteq> [] \<Longrightarrow> \<exists>s'. adjustDifficulty s = Returned s'"
  by (simp add: adjustDifficulty_def Let_def)

lemma addBlock_accepted:
  assumes "fst (addBlock maxLength s b now h) = Returned True"
  shows "fst (Block_isValid maxLength b (getLatestBlock s) now h) = Returned True"
    and "\<not> list_ex (\<lambda>tx. \<not> Transaction_isValid tx (utxoSet s))
            (map (nth (fold ensureHash (transactions b) h)) (tl (transactions b)))"
    and "adjustDifficulty
           (admit s (fst (snd (Block_isValid maxLength b (getLatestBlock s) now h)))
              (snd (snd (Block_isValid maxLength b (getLatestBlock s) now h))))
         = Returned (fst (snd (addBlock maxLength s b now h)))"
  using assms
  by (auto simp: addBlock_unfold Let_def split: if_splits outcome.splits)

lemma addBlock_accepts:
  assumes "fst (Block_isValid maxLength b (getLatestBlock s) now h) = Returned True"
    and "\<not> list_ex (\<lambda>tx. \<not> Transaction_isValid tx (utxoSet s))
            (map (nth (fold ensureHash (transactions b) h)) (tl (transactions b)))"
  shows "fst (addBlock maxLength s b now h) = Returned True"
    and "adjustDifficulty
           (admit s (fst (snd (Block_isValid maxLength b (getLatestBlock s) now h)))
              (snd (snd (Block_isValid maxLength b (getLatestBlock s) now h))))
         = Returned (fst (snd (addBlock maxLength s b now h)))"
  using assms
    adjustDifficulty_never_throws[of "admit s (fst (snd (Block_isValid maxLength b (getLatestBlock s) now h)))
              (fold ensureHash (transactions b) h)"]
  by (auto simp: addBlock_unfold Let_def split: if_splits outcome.splits)

lemma retarget_after_spaced_blocks:
  assumes ok: "fst (addBlock maxLength s b now h) = Returned True"
    and k: "difficultyAdjustmentInterval s = 10" and t: "targetBlockTime s = 5000"
    and n: "(length (chain s) + 1) mod 10 = 0"
    and spaced: "\<forall>i<9.
        400 \<le> BlockHeader.timestamp (header ((drop (length (chain s) - 9) (chain s) @ [b]) ! Suc i))
              - BlockHeader.timestamp (header ((drop (length (chain s) - 9) (chain s) @ [b]) ! i))
        \<and> BlockHeader.timestamp (header ((drop (length (chain s) - 9) (chain s) @ [b]) ! Suc i))
              - BlockHeader.timestamp (header ((drop (length (chain s) - 9) (chain s) @ [b]) ! i)) \<le> 600"
  shows "Blockchain.difficulty (fst (snd (addBlock maxLength s b now h))) = Blockchain.difficulty s + 1"
proof -
  define b' where "b' = fst (snd (Block_isValid maxLength b (getLatestBlock s) now h))"
  define h' where "h' = snd (snd (Block_isValid maxLength b (getLatestBlock s) now h))"
  define bs where "bs = drop (length (chain s) - 9) (chain s) @ [b]"
  define f where "f i = BlockHeader.timestamp (header (bs ! i))" for i
  from n have len: "length (chain s) \<ge> 9"
    by presburger
  then have lbs: "length (drop (length (chain s) - 9) (chain s)) = 9"
    by simp
  from spaced have "\<forall>i<9. 400 \<le> f (Suc i) - f i \<and> f (Suc i) - f i \<le> 600"
    by (simp add: f_def bs_def)
  from telescope_bounds[OF this] have bounds: "3600 \<le> f 9 - f 0" "f 9 - f 0 \<le> 5400"
    by simp_all
  have f9: "f 9 = BlockHeader.timestamp (header b)"
    using lbs by (simp add: f_def bs_def nth_append)
  have f0: "f 0 = BlockHeader.timestamp (header (chain s ! (length (chain s) - 9)))"
    using len lbs by (simp add: f_def bs_def nth_append)
  let ?s3 = "admit s b' h'"
  have adj: "adjustDifficulty ?s3 = Returned (fst (snd (addBlock maxLength s b now h)))"
    using addBlock_accepted(3)[OF ok] by (simp only: b'_def h'_def)
  have tb': "BlockHeader.timestamp (header b') = BlockHeader.timestamp (header b)"
    by (simp add: b'_def)
  define ta where "ta = BlockHeader.timestamp (header (chain ?s3 ! (length (chain ?s3) - 1)))
      - BlockHeader.timestamp (header (chain ?s3 ! (length (chain ?s3) - difficultyAdjustmentInterval ?s3)))"
  from len have lt: "length (chain s) - 9 < length (chain s)"
    by arith
  have "ta = f 9 - f 0"
    using len lt by (simp add: ta_def k nth_append f9 f0 tb')
  with bounds have "ta < 12500"
    by simp
  then have "(of_int ta :: rat) < 12500"
    by (simp only: of_int_less_numeral_iff)
  then have ratio: "(of_int ta / of_int (targetBlockTime ?s3 * int (difficultyAdjustmentInterval ?s3)) :: rat) < 1 / 4"
    by (simp add: k t)
  have "adjustDifficulty ?s3 =
     (let n = length (chain ?s3); k = difficultyAdjustmentInterval ?s3;
          timeActual = BlockHeader.timestamp (header (chain ?s3 ! (n - 1)))
                       - BlockHeader.timestamp (header (chain ?s3 ! (n - k)));
          timeExpected = targetBlockTime ?s3 * int k;
          ratio = (of_int timeActual / of_int timeExpected :: rat)
      in Returned (?s3\<lparr>Blockchain.difficulty :=
           if ratio < 1 / 4 then Blockchain.difficulty ?s3 + 1
           else if ratio > 4 then max 1 (Blockchain.difficulty ?s3 - 1)
           else Blockchain.difficulty ?s3\<rparr>))"
    using n by (intro adjustDifficulty_on_boundary) (simp_all add: k t)
  then have "adjustDifficulty ?s3 = Returned (?s3\<lparr>Blockchain.difficulty := Blockchain.difficulty ?s3 + 1\<rparr>)"
    unfolding Let_def ta_def[symmetric] using ratio by (simp only: if_True)
  with adj have "fst (snd (addBlock maxLength s b now h)) = ?s3\<lparr>Blockchain.difficulty := Blockchain.difficulty ?s3 + 1\<rparr>"
    by simp
  then show ?thesis
    by simp
qed

lemma no_retarget_off_boundary:
  assumes ok: "fst (addBlock maxLength s b now h) = Returned True"
    and off: "difficultyAdjustmentInterval s = 0
              \<or> (length (chain s) + 1) mod difficultyAdjustmentInterval s \<noteq> 0"
  shows "Blockchain.difficulty (fst (snd (addBlock maxLength s b now h))) = Blockchain.difficulty s"
proof -
  let ?s3 = "admit s (fst (snd (Block_isValid maxLength b (getLatestBlock s) now h)))
               (snd (snd (Block_isValid maxLength b (getLatestBlock s) now h)))"
  from off have "adjustDifficulty ?s3 = Returned ?s3"
    by (intro adjustDifficulty_off_boundary) simp
  with addBlock_accepted(3)[OF ok] have "fst (snd (addBlock maxLength s b now h)) = ?s3"
    by simp
  then show ?thesis
    by simp
qed

text \<open>
  Claim C6. \<^verbatim>\<open>adjustDifficulty\<close> leaves the ledger as it is unless the chain length is a
  multiple of the retarget interval. On such a boundary (with a non-zero target block time)
  it takes the timestamps of the last block and of the block \<open>interval - 1\<close> places before
  it, divides their difference by \<open>targetBlockTime * interval\<close>, and raises the difficulty by
  one when the quotient is below 1/4, lowers it by one but not below 1 (\<open>max 1 (d - 1)\<close>) when
  the quotient is above 4, and keeps it otherwise. \<^verbatim>\<open>addBlock\<close> runs it on the ledger that has
  the new block appended (\<open>admit\<close>). In particular, with interval 10 and target block time
  5000, when the block that brings the chain length to a multiple of 10 and the nine before
  it are spaced between 400 and 600 milliseconds apart, the difficulty after \<^verbatim>\<open>addBlock\<close> is
  the one before plus one; off a boundary the difficulty is unchanged.
\<close>

theorem difficulty_retargeting:
  "(difficultyAdjustmentInterval s = 0
      \<or> length (chain s) mod difficultyAdjustmentInterval s \<noteq> 0
    \<longrightarrow> adjustDifficulty s = Returned s)
   \<and> (chain s \<noteq> [] \<and> difficultyAdjustmentInterval s \<noteq> 0
      \<and> length (chain s) mod difficultyAdjustmentInterval s = 0 \<and> targetBlockTime s \<noteq> 0
    \<longrightarrow> adjustDifficulty s =
       (let n = length (chain s); k = difficultyAdjustmentInterval s;
            timeActual = BlockHeader.timestamp (header (chain s ! (n - 1)))
                         - BlockHeader.timestamp (header (chain s ! (n - k)));
            timeExpected = targetBlockTime s * int k;
            ratio = (of_int timeActual / of_int timeExpected :: rat)
        in Returned (s\<lparr>Blockchain.difficulty :=
             if ratio < 1 / 4 then Blockchain.difficulty s + 1
             else if ratio > 4 then max 1 (Blockchain.difficulty s - 1)
             else Blockchain.difficulty s\<rparr>)))
   \<and> (fst (addBlock maxLength l b now h) = Returned True
    \<longrightarrow> adjustDifficulty
          (admit l (fst (snd (Block_isValid maxLength b (getLatestBlock l) now h)))
             (snd (snd (Block_isValid maxLength b (getLatestBlock l) now h))))
          = Returned (fst (snd (addBlock maxLength l b now h)))
        \<and> (difficultyAdjustmentInterval l = 0
              \<or> (length (chain l) + 1) mod difficultyAdjustmentInterval l \<noteq> 0
            \<longrightarrow> Blockchain.difficulty (fst (snd (addBlock maxLength l b now h)))
                = Blockchain.difficulty l)
        \<and> (difficultyAdjustmentInterval l = 10 \<and> targetBlockTime l = 5000
              \<and> (length (chain l) + 1) mod 10 = 0
              \<and> (\<forall>i<9.
                   400 \<le> BlockHeader.timestamp (header ((drop (length (chain l) - 9) (chain l) @ [b]) ! Suc i))
                         - BlockHeader.timestamp (header ((drop (length (chain l) - 9) (chain l) @ [b]) ! i))
                   \<and> BlockHeader.timestamp (header ((drop (length (chain l) - 9) (chain l) @ [b]) ! Suc i))
                         - BlockHeader.timestamp (header ((drop (length (chain l) - 9) (chain l) @ [b]) ! i))
                       \<le> 600)
            \<longrightarrow> Blockchain.difficulty (fst (snd (addBlock maxLength l b now h)))
                = Blockchain.difficulty l + 1))"
proof (intro conjI impI)
  show "adjustDifficulty s = Returned s"
    if "difficultyAdjustmentInterval s = 0
        \<or> length (chain s) mod difficultyAdjustmentInterval s \<noteq> 0"
    using that by (rule adjustDifficulty_off_boundary)
next
  assume "chain s \<noteq> [] \<and> difficultyAdjustmentInterval s \<noteq> 0
      \<and> length (chain s) mod difficultyAdjustmentInterval s = 0 \<and> targetBlockTime s \<noteq> 0"
  then show "adjustDifficulty s =
       (let n = length (chain s); k = difficultyAdjustmentInterval s;
            timeActual = BlockHeader.timestamp (header (chain s ! (n - 1)))
                         - BlockHeader.timestamp (header (chain s ! (n - k)));
            timeExpected = targetBlockTime s * int k;
            ratio = (of_int timeActual / of_int timeExpected :: rat)
        in Returned (s\<lparr>Blockchain.difficulty :=
             if ratio < 1 / 4 then Blockchain.difficulty s + 1
             else if ratio > 4 then max 1 (Blockchain.difficulty s - 1)
             else Blockchain.difficulty s\<rparr>))"
    by (intro adjustDifficulty_on_boundary) simp_all
next
  assume ok: "fst (addBlock maxLength l b now h) = Returned True"
  show "adjustDifficulty
          (admit l (fst (snd (Block_isValid maxLength b (getLatestBlock l) now h)))
             (snd (snd (Block_isValid maxLength b (getLatestBlock l) now h))))
          = Returned (fst (snd (addBlock maxLength l b now h)))"
    by (rule addBlock_accepted(3)[OF ok])
  show "Blockchain.difficulty (fst (snd (addBlock maxLength l b now h))) = Blockchain.difficulty l"
    if "difficultyAdjustmentInterval l = 0
        \<or> (length (chain l) + 1) mod difficultyAdjustmentInterval l \<noteq> 0"
    using ok that by (rule no_retarget_off_boundary)
  show "Blockchain.difficulty (fst (snd (addBlock maxLength l b now h))) = Blockchain.difficulty l + 1"
    if "difficultyAdjustmentInterval l = 10 \<and> targetBlockTime l = 5000
              \<and> (length (chain l) + 1) mod 10 = 0
              \<and> (\<forall>i<9.
                   400 \<le> BlockHeader.timestamp (header ((drop (length (chain l) - 9) (chain l) @ [b]) ! Suc i))
                         - BlockHeader.timestamp (header ((drop (length (chain l) - 9) (chain l) @ [b]) ! i))
                   \<and> BlockHeader.timestamp (header ((drop (length (chain l) - 9) (chain l) @ [b]) ! Suc i))
                         - BlockHeader.timestamp (header ((drop (length (chain l) - 9) (chain l) @ [b]) ! i))
                       \<le> 600)"
    using that by (intro retarget_after_spaced_blocks[OF ok]) simp_all
qed

lemma tenth_block_valid:
  "Block_isValid maxStringLength tenth_block (getLatestBlock spaced_ledger) 1700000004500 tenth_heap
   = (Returned True, fst (Block_calculateHash tenth_block tenth_heap),
      fold ensureHash [0] tenth_heap)"
  by (simp add: Block_isValid_def Block_calculateHash_def Block_calculateMerkleRoot_def Let_def
      split_beta tenth_block_def tenth_heap_def Block_new_def isValidProofOfWork_def
      maxStringLength_def getLatestBlock_def spaced_ledger_def spaced_block_def ensureHash_def
      Transaction_calculateHash_def createCoinbase_def Transaction_new_def isCoinbase_def
      zero_hash_def)

lemma tenth_block_accepted:
  "fst (addBlock maxStringLength spaced_ledger tenth_block 1700000004500 tenth_heap) = Returned True"
  by (rule addBlock_accepts(1))
     (simp_all add: tenth_block_valid, simp add: tenth_block_def Block_new_def)

lemma spaced_ledger_spacing:
  "\<forall>i<9. BlockHeader.timestamp (header ((drop (length (chain spaced_ledger) - 9) (chain spaced_ledger) @ [tenth_block]) ! Suc i))
         - BlockHeader.timestamp (header ((drop (length (chain spaced_ledger) - 9) (chain spaced_ledger) @ [tenth_block]) ! i)) = 500"
  by (simp add: eval_nat_numeral less_Suc_eq all_conj_distrib spaced_ledger_def Blockchain_new_def
      spaced_block_def tenth_block_def Block_new_def)

theorem difficulty_retargeting_witness:
  "adjustDifficulty spaced_ledger = Returned spaced_ledger
   \<and> fst (addBlock maxStringLength spaced_ledger tenth_block 1700000004500 tenth_heap) = Returned True
   \<and> Blockchain.difficulty spaced_ledger = 1
   \<and> Blockchain.difficulty
        (fst (snd (addBlock maxStringLength spaced_ledger tenth_block 1700000004500 tenth_heap))) = 2
   \<and> adjustDifficulty
        (admit spaced_ledger (fst (Block_calculateHash tenth_block tenth_heap))
           (fold ensureHash [0] tenth_heap))
       = Returned ((admit spaced_ledger (fst (Block_calculateHash tenth_block tenth_heap))
                      (fold ensureHash [0] tenth_heap))\<lparr>Blockchain.difficulty := 2\<rparr>)"
proof -
  let ?l = spaced_ledger and ?blk = tenth_block and ?now = "1700000004500 :: int"
  let ?s = "admit spaced_ledger (fst (Block_calculateHash tenth_block tenth_heap))
              (fold ensureHash [0] tenth_heap)"
  note inst1 = difficulty_retargeting [where s = ?l and l = ?l and b = ?blk and now = ?now
      and maxLength = maxStringLength and h = tenth_heap]
  note inst2 = difficulty_retargeting [where s = ?s and l = ?l and b = ?blk and now = ?now
      and maxLength = maxStringLength and h = tenth_heap]
  have fields: "difficultyAdjustmentInterval ?l = 10" "targetBlockTime ?l = 5000"
    "length (chain ?l) = 9" "Blockchain.difficulty ?l = 1"
    by (simp_all add: spaced_ledger_def Blockchain_new_def)
  have 1: "adjustDifficulty ?l = Returned ?l"
    using inst1 by (simp add: fields)
  have 2: "Blockchain.difficulty (fst (snd (addBlock maxStringLength ?l ?blk ?now tenth_heap)))
      = Blockchain.difficulty ?l + 1"
    using inst1 tenth_block_accepted spaced_ledger_spacing by (simp add: fields)
  have ts: "BlockHeader.timestamp (header ((chain ?l @ [fst (Block_calculateHash ?blk tenth_heap)]) ! 9)) = 1700000004500"
    "BlockHeader.timestamp (header ((chain ?l @ [fst (Block_calculateHash ?blk tenth_heap)]) ! 0)) = 1700000000000"
    by (simp_all add: spaced_ledger_def Blockchain_new_def spaced_block_def tenth_block_def Block_new_def
        nth_append)
  have 3: "adjustDifficulty ?s = Returned (?s\<lparr>Blockchain.difficulty := 2\<rparr>)"
    using inst2 by (simp add: fields ts Let_def)
  from 1 2 3 tenth_block_accepted show ?thesis
    by (simp add: fields)
qed

section \<open>The example ledger is reached\<close>

text \<open>
  These facts are computed: the SHA-256 digests are evaluated inside the logic.
\<close>

lemma genesis_ledger_initialized:
  "initializeGenesis maxStringLength Blockchain_new genesis_time genesis_time genesis_time
     (\<lambda>n. genesis_time) []
   = (Returned (), genesis_ledger, genesis_heap)"
  by code_simp

lemma spend_one_valid: "Transaction_isValid spend_one (utxoSet genesis_ledger)"
  by code_simp

lemma spend_two_valid: "Transaction_isValid spend_two (utxoSet genesis_ledger)"
  by code_simp

lemma spend_one_hash: "Transaction_calculateHash spend_one = spend_one"
  by code_simp

lemma spend_two_hash: "Transaction_calculateHash spend_two = spend_two"
  by code_simp

section \<open>Properties of transactions\<close>

subsection \<open>Validation of a coinbase transaction\<close>

lemma isCoinbase_inputs:
  "isCoinbase tx \<longleftrightarrow>
     (\<exists>inp. inputs tx = [inp] \<and> previousTxHash inp = zero_hash
            \<and> TransactionInput.outputIndex inp = 4294967295)"
  by (auto simp: isCoinbase_def split: list.splits)

lemma isCoinbase_inputKey:
  "isCoinbase tx \<Longrightarrow> map inputKey (inputs tx) = [sentinelKey]"
  by (auto simp: isCoinbase_inputs inputKey_def sentinelKey_def)








end
